theory Spec2Isabelle
  imports Complex_Main
begin

section \<open>The live chat container and the comment action bar\<close>

text \<open>
  A shallow embedding of the two components
  \<^verbatim>\<open>stream/tabs/Live/LiveChatContainer.tsx\<close> and
  \<^verbatim>\<open>stream/tabs/Live/LiveComment/LiveCommentActionsContainer.tsx\<close>.

  A React function component is a set of callbacks closed over the values of one render.
  The embedding keeps the two kinds of data apart, as the component does:
  \<^item> \<open>env\<close> holds what a callback closes over: the props and the values read from
    \<^verbatim>\<open>useLocal\<close> and \<^verbatim>\<open>useState\<close> at the render that created it;
  \<^item> \<open>state\<close> holds what outlives a render and is mutated by the callbacks: the
    \<^verbatim>\<open>useRef\<close> cells, the Local store's \<^verbatim>\<open>liveChat.tailing\<close>, the
    \<^verbatim>\<open>newComment\<close> state cell, the persisted key-value storage, and a log of
    the calls made to outside collaborators, in program order.
  JavaScript numbers that hold pixel offsets are modelled as \<open>real\<close>.
\<close>

subsection \<open>Data\<close>

record NewComment =
  nc_id :: string
  nc_cursor :: string

record CursorState =
  createdAt :: string
  cursor :: string

text \<open>The part of the scroll container element that the callbacks read.\<close>

record container =
  scrollTop :: real
  scrollHeight :: real
  offsetHeight :: real

record chat_viewer =
  viewer_id :: string

text \<open>The callbacks the component hands to \<^verbatim>\<open>window.setTimeout\<close>.\<close>

datatype timer_callback =
    EnableScroll
  | MaintainPrevScrollStateAndClear
  | ClearScrollState
  | PerformTailingScroll
  | AfterTailingScroll

text \<open>
  Calls to collaborators outside the component, logged in the order the code makes them:
  \<^verbatim>\<open>setLocal\<close>, \<^verbatim>\<open>setNewComment\<close>, the two scroll helpers (the scroll to the end
  with its target and its \<^verbatim>\<open>behavior\<close>), an assignment to the container's
  \<^verbatim>\<open>scrollTop\<close>, \<^verbatim>\<open>window.setTimeout\<close>, \<^verbatim>\<open>LiveChatLoadBeforeEvent.emit\<close> (story id,
  viewer id), \<^verbatim>\<open>loadMoreBefore\<close>, \<^verbatim>\<open>loadMoreAfter\<close> and \<^verbatim>\<open>localStorage.setItem\<close>.
\<close>

datatype effect =
    SetTailing bool
  | SetNewComment "NewComment option"
  | ScrollToBeforeAfter
  | ScrollToEnd real "string option"
  | SetScrollTop real
  | SetTimeout timer_callback nat
  | EmitLoadBefore string string
  | LoadMoreBefore
  | LoadMoreAfter
  | SetItem string CursorState

text \<open>How an awaited promise settles.\<close>

datatype outcome = Resolved | Rejected

datatype error = TypeError

record env =
  beforeHasMore :: bool
  isLoadingMoreBefore :: bool
  afterHasMore :: bool
  isLoadingMoreAfter :: bool
  cursorSet :: "bool option"
  viewer :: "chat_viewer option"
  story_id :: string
  storyID :: string
  storyURL :: string
  tailing :: bool
  newComment :: "NewComment option"

text \<open>
  \<open>liveChat_tailing\<close> is the Local store's flag that \<^verbatim>\<open>setTailing\<close> writes and
  \<open>newComment_cell\<close> the state cell that \<^verbatim>\<open>setNewComment\<close> writes; a later render
  reads them into \<open>tailing\<close> and \<open>newComment\<close> of its \<open>env\<close>. The three element refs
  are \<open>None\<close> while detached. \<open>pendingBefore\<close> and \<open>pendingAfter\<close> count the
  promises returned by \<^verbatim>\<open>loadMoreBefore()\<close> and \<^verbatim>\<open>loadMoreAfter()\<close> that have not
  settled yet. The persisted storage holds, under a key, nothing or the JSON text of a
  \<^verbatim>\<open>{createdAt, cursor}\<close> object; the model keeps the object itself.
  Each of the five \<^verbatim>\<open>...Timeout\<close> refs is modelled by whether the timer it holds is
  pending: set and neither fired nor cleared (\<^verbatim>\<open>clearTimeout\<close> on a timer that has
  fired does nothing). The handle of the mount effect's timer is a local of the effect
  and has no cell. \<^verbatim>\<open>lastScrollTop\<close> is written by the component and never read; it
  is left out.
\<close>

record state =
  liveChat_tailing :: bool
  newComment_cell :: "NewComment option"
  scrollEnabled :: bool
  prevScrollHeight :: "real option"
  prevScrollTop :: "real option"
  beforeCommentsIncoming :: bool
  afterCommentsIncoming :: bool
  containerRef :: "container option"
  beginRef :: "unit option"
  beforeAfterRef :: "unit option"
  clearScrollStateTimeout :: bool
  beforeMaintainScrollStateTimeout :: bool
  afterMaintainScrollStateTimeout :: bool
  tailingScrollTimeout :: bool
  afterTailingScrollTimeout :: bool
  pendingBefore :: nat
  pendingAfter :: nat
  localStorage :: "string \<rightharpoonup> CursorState"
  trace :: "effect list"

subsection \<open>Helpers of the component\<close>

definition log :: "effect \<Rightarrow> state \<Rightarrow> state" where
  "log e s = s\<lparr>trace := trace s @ [e]\<rparr>"

definition setTailing :: "bool \<Rightarrow> state \<Rightarrow> state" where
  "setTailing v s = log (SetTailing v) (s\<lparr>liveChat_tailing := v\<rparr>)"

definition setNewComment :: "NewComment option \<Rightarrow> state \<Rightarrow> state" where
  "setNewComment v s = log (SetNewComment v) (s\<lparr>newComment_cell := v\<rparr>)"

text \<open>
  \<^verbatim>\<open>beforeAfterRef.current.scrollIntoView(...)\<close> and
  \<^verbatim>\<open>containerRef.current.scrollHeight\<close> dereference the ref without a check, which
  throws a TypeError on a detached ref.
\<close>

definition scrollToBeforeAfter :: "state \<Rightarrow> error + state" where
  "scrollToBeforeAfter s =
     (case beforeAfterRef s of
        None \<Rightarrow> Inl TypeError
      | Some _ \<Rightarrow> Inr (log ScrollToBeforeAfter s))"

definition scrollToEnd :: "string option \<Rightarrow> state \<Rightarrow> error + state" where
  "scrollToEnd behavior s =
     (case containerRef s of
        None \<Rightarrow> Inl TypeError
      | Some c \<Rightarrow> Inr (log (ScrollToEnd (scrollHeight c) behavior) s))"

text \<open>
  The calls a state transformer adds to the log.
\<close>

definition effects_of :: "(state \<Rightarrow> state) \<Rightarrow> state \<Rightarrow> effect list" where
  "effects_of h s = drop (length (trace s)) (trace (h s))"


subsection \<open>Mount effect\<close>

text \<open>
  The first \<^verbatim>\<open>useEffect\<close>. \<^verbatim>\<open>cursorSet\<close> is an optional boolean prop, truthy only
  when it is \<open>Some True\<close>. The effect ends by scheduling the timer that sets
  \<^verbatim>\<open>scrollEnabled.current\<close> after 300 ms; \<open>enableScroll\<close> is that timer's callback.
\<close>

definition mountEffect :: "env \<Rightarrow> state \<Rightarrow> error + state" where
  "mountEffect e s =
     (if beforeCommentsIncoming s \<or> afterCommentsIncoming s then Inr s
      else
        (case (if cursorSet e = Some True then scrollToBeforeAfter s
               else (case scrollToEnd None s of
                       Inl err \<Rightarrow> Inl err
                     | Inr s1 \<Rightarrow> Inr (setTailing True s1))) of
           Inl err \<Rightarrow> Inl err
         | Inr s2 \<Rightarrow> Inr (log (SetTimeout EnableScroll 300) s2)))"

definition enableScroll :: "state \<Rightarrow> state" where
  "enableScroll s = s\<lparr>scrollEnabled := True\<rparr>"

text \<open>
  The values the cells are created with (\<^verbatim>\<open>useRef(false)\<close>, \<^verbatim>\<open>useRef(null)\<close>,
  \<^verbatim>\<open>useState(null)\<close>), with the three elements attached, as they are when the effects
  of the first commit run. The Local store and the storage outlive the component, and
  the scroll container is laid out by the browser: the store's tailing flag, the
  container and the storage are whatever they are when the component mounts.
\<close>

definition initialState :: "bool \<Rightarrow> container \<Rightarrow> (string \<rightharpoonup> CursorState) \<Rightarrow> state" where
  "initialState on c st =
     \<lparr> liveChat_tailing = on,
       newComment_cell = None,
       scrollEnabled = False,
       prevScrollHeight = None,
       prevScrollTop = None,
       beforeCommentsIncoming = False,
       afterCommentsIncoming = False,
       containerRef = Some c,
       beginRef = Some (),
       beforeAfterRef = Some (),
       clearScrollStateTimeout = False,
       beforeMaintainScrollStateTimeout = False,
       afterMaintainScrollStateTimeout = False,
       tailingScrollTimeout = False,
       afterTailingScrollTimeout = False,
       pendingBefore = 0,
       pendingAfter = 0,
       localStorage = st,
       trace = [] \<rparr>"

subsection \<open>Scroll state\<close>

definition clearScrollState :: "state \<Rightarrow> state" where
  "clearScrollState s =
     s\<lparr> prevScrollHeight := None,
        prevScrollTop := None,
        beforeCommentsIncoming := False,
        afterCommentsIncoming := False \<rparr>"



subsection \<open>Backward pagination\<close>


text \<open>
  \<^verbatim>\<open>onBeginInView\<close> up to its \<^verbatim>\<open>await\<close>. Everything after the flag is set sits in
  the \<^verbatim>\<open>try\<close> block, so the TypeError of a detached container is caught there and
  the call returns with the flag set and no load issued.
\<close>

definition onBeginInView :: "env \<Rightarrow> state \<Rightarrow> state" where
  "onBeginInView e s =
     (if beforeHasMore e \<and> \<not> isLoadingMoreBefore e \<and> \<not> beforeCommentsIncoming s then
        (let s1 = s\<lparr>beforeCommentsIncoming := True\<rparr> in
         case containerRef s1 of
           None \<Rightarrow> s1
         | Some c \<Rightarrow>
             (let s2 = s1\<lparr>prevScrollHeight := Some (scrollHeight c),
                          prevScrollTop := Some (scrollTop c)\<rparr>;
                  s3 = log (EmitLoadBefore (story_id e)
                             (case viewer e of Some v \<Rightarrow> viewer_id v | None \<Rightarrow> [])) s2;
                  s4 = log LoadMoreBefore s3
              in s4\<lparr>pendingBefore := Suc (pendingBefore s4)\<rparr>))
      else s)"

text \<open>
  The rest of \<^verbatim>\<open>onBeginInView\<close>, run when the awaited promise settles: nothing follows
  the \<^verbatim>\<open>await\<close> inside the \<^verbatim>\<open>try\<close>, and the \<^verbatim>\<open>catch\<close> block is empty.
\<close>

definition onBeginInView_settled :: "outcome \<Rightarrow> state \<Rightarrow> state" where
  "onBeginInView_settled r s =
     (let s1 = s\<lparr>pendingBefore := pendingBefore s - 1\<rparr> in
      case r of Resolved \<Rightarrow> s1 | Rejected \<Rightarrow> s1)"

subsection \<open>Forward pagination\<close>





definition onEndInView :: "env \<Rightarrow> state \<Rightarrow> state" where
  "onEndInView e s =
     (if afterHasMore e \<and> \<not> isLoadingMoreAfter e \<and> \<not> afterCommentsIncoming s
         \<and> \<not> tailing e then
        (let s1 = s\<lparr>afterCommentsIncoming := True\<rparr>;
             s2 = setTailing False s1;
             s3 = log LoadMoreAfter s2
         in s3\<lparr>pendingAfter := Suc (pendingAfter s3)\<rparr>)
      else s)"


subsection \<open>Tailing\<close>

text \<open>
  A ref is an object \<^verbatim>\<open>{current: ...}\<close>; used as a condition it is truthy whatever
  its \<^verbatim>\<open>current\<close> holds. \<^verbatim>\<open>onScroll\<close> tests \<^verbatim>\<open>!scrollEnabled\<close>, the ref itself.
\<close>

definition ref_truthy :: "'a \<Rightarrow> bool" where
  "ref_truthy current = True"

definition atBottom :: "container \<Rightarrow> bool" where
  "atBottom c = (\<bar>scrollTop c - (scrollHeight c - offsetHeight c)\<bar> < 5)"

definition onScroll :: "env \<Rightarrow> state \<Rightarrow> state" where
  "onScroll e s =
     (case containerRef s of
        None \<Rightarrow> s
      | Some c \<Rightarrow>
          if beginRef s = None \<or> \<not> ref_truthy (scrollEnabled s) then s
          else setTailing (atBottom c \<and> \<not> afterHasMore e) s)"


subsection \<open>Visibility of a comment\<close>

text \<open>
  \<^verbatim>\<open>new Date(a) > new Date(b)\<close> compares the time values of the two dates; the time
  value of an unparsable string is NaN, and every comparison with NaN is false.
  The parser is the platform's, so it is a parameter: \<open>D a\<close> is the time value of
  \<^verbatim>\<open>new Date(a)\<close> in milliseconds, \<open>None\<close> for NaN.
\<close>

definition date_gt :: "(string \<Rightarrow> int option) \<Rightarrow> string \<Rightarrow> string \<Rightarrow> bool" where
  "date_gt D a b =
     (case D a of
        None \<Rightarrow> False
      | Some x \<Rightarrow> (case D b of None \<Rightarrow> False | Some y \<Rightarrow> y < x))"

definition cursorKey :: "env \<Rightarrow> string" where
  "cursorKey e = ''liveCursor:'' @ storyID e @ '':'' @ storyURL e"

definition setItem :: "string \<Rightarrow> CursorState \<Rightarrow> state \<Rightarrow> state" where
  "setItem k v s = log (SetItem k v) (s\<lparr>localStorage := (localStorage s)(k \<mapsto> v)\<rparr>)"

text \<open>
  \<^verbatim>\<open>onCommentVisible\<close> is an async function with two \<^verbatim>\<open>await\<close>s, and other callbacks
  run while it waits; it is modelled by the pieces between its \<^verbatim>\<open>await\<close>s.
  The first piece builds the key and asks the storage for the record: its value is what
  the storage holds when asked.
\<close>

definition onCommentVisible_getItem :: "env \<Rightarrow> state \<Rightarrow> CursorState option" where
  "onCommentVisible_getItem e s = localStorage s (cursorKey e)"

text \<open>
  The last piece runs after the awaited \<^verbatim>\<open>setItem\<close>, or at once when nothing was
  written.
\<close>

definition onCommentVisible_rest :: "env \<Rightarrow> string \<Rightarrow> state \<Rightarrow> state" where
  "onCommentVisible_rest e cid s =
     (case newComment e of
        None \<Rightarrow> s
      | Some nc \<Rightarrow> if nc_id nc = cid then setNewComment None s else s)"

text \<open>
  The middle piece runs once the awaited \<^verbatim>\<open>getItem\<close> has answered with \<open>current\<close>:
  it compares against \<open>current\<close>, not against what the storage holds by now, and calls
  \<^verbatim>\<open>setItem\<close> in the two writing branches. \<^verbatim>\<open>current && ...\<close> is false when there is
  no record.
\<close>

definition onCommentVisible_afterGetItem ::
  "(string \<Rightarrow> int option) \<Rightarrow> env \<Rightarrow> string \<Rightarrow> string \<Rightarrow> string
     \<Rightarrow> CursorState option \<Rightarrow> state \<Rightarrow> state" where
  "onCommentVisible_afterGetItem D e cid created cur current s =
     (let key = cursorKey e;
          new = \<lparr>createdAt = created, cursor = cur\<rparr>
      in if (case current of None \<Rightarrow> False
                           | Some c \<Rightarrow> date_gt D created (createdAt c))
         then setItem key new s
         else if current = None then setItem key new s
         else onCommentVisible_rest e cid s)"

subsection \<open>Submitting a comment\<close>

text \<open>For a string, \<^verbatim>\<open>!x\<close> holds exactly when \<open>x\<close> is empty.\<close>

definition onCommentSubmitted :: "env \<Rightarrow> string \<Rightarrow> string \<Rightarrow> state \<Rightarrow> state" where
  "onCommentSubmitted e commentID cur s =
     (if commentID = [] \<or> cur = [] then s
      else if \<not> tailing e then setNewComment (Some \<lparr>nc_id = commentID, nc_cursor = cur\<rparr>) s
      else s)"

subsection \<open>Sequences of events\<close>










subsection \<open>The comment action bar\<close>

text \<open>
  \<^verbatim>\<open>GQLUSER_STATUS\<close> and \<^verbatim>\<open>Ability\<close> are enumerations of the schema and of the
  permissions module; only the members these files name are spelled out. The permission
  check \<^verbatim>\<open>can\<close> belongs to the permissions module and is a parameter.
\<close>

datatype GQLUSER_STATUS = BANNED | SUSPENDED | WARNED | OtherStatus string

datatype Ability = MODERATE | OtherAbility string

record actions_viewer =
  role :: string
  status_current :: "GQLUSER_STATUS list"

record actions_story =
  canModerate :: bool

text \<open>\<^verbatim>\<open>!!viewer?.status.current.includes(x)\<close>: false without a viewer.\<close>

definition status_includes :: "actions_viewer option \<Rightarrow> GQLUSER_STATUS \<Rightarrow> bool" where
  "status_includes v x = (case v of None \<Rightarrow> False | Some u \<Rightarrow> x \<in> set (status_current u))"

definition isViewerBanned :: "actions_viewer option \<Rightarrow> bool" where
  "isViewerBanned v = status_includes v BANNED"

definition isViewerSuspended :: "actions_viewer option \<Rightarrow> bool" where
  "isViewerSuspended v = status_includes v SUSPENDED"

definition isViewerWarned :: "actions_viewer option \<Rightarrow> bool" where
  "isViewerWarned v = status_includes v WARNED"

definition showModerationCaret ::
  "(actions_viewer \<Rightarrow> Ability \<Rightarrow> bool) \<Rightarrow> actions_viewer option \<Rightarrow> actions_story \<Rightarrow> bool" where
  "showModerationCaret can v story =
     (case v of None \<Rightarrow> False | Some u \<Rightarrow> canModerate story \<and> can u MODERATE)"

text \<open>
  The condition in front of \<^verbatim>\<open><ReportButton>\<close>; \<open>onToggleReport\<close> is \<open>None\<close> when the
  optional handler was not passed.
\<close>

definition rendersReportButton ::
  "(actions_viewer \<Rightarrow> Ability \<Rightarrow> bool) \<Rightarrow> actions_viewer option \<Rightarrow> actions_story
     \<Rightarrow> unit option \<Rightarrow> bool" where
  "rendersReportButton can v story onToggleReport =
     (v \<noteq> None \<and> \<not> isViewerBanned v \<and> \<not> isViewerSuspended v \<and> \<not> isViewerWarned v
      \<and> \<not> showModerationCaret can v story \<and> onToggleReport \<noteq> None)"

subsection \<open>Sample inputs\<close>

text \<open>
  A container showing the top of a long list, a render with more pages in both
  directions and no viewer, the state at the first commit with tailing off in the Local
  store and empty storage, the state the mount effect leaves, and the same once the
  warm-up timer has fired.
\<close>

definition demo_container :: container where
  "demo_container = \<lparr>scrollTop = 0, scrollHeight = 1000, offsetHeight = 400\<rparr>"

definition demo_env :: env where
  "demo_env =
     \<lparr> beforeHasMore = True, isLoadingMoreBefore = False,
       afterHasMore = True, isLoadingMoreAfter = False,
       cursorSet = None, viewer = None,
       story_id = ''story-1'', storyID = ''story-1'', storyURL = ''https://example.org/a'',
       tailing = False, newComment = None \<rparr>"

definition demo_state :: state where
  "demo_state = initialState False demo_container Map.empty"

definition demo_mounted :: state where
  "demo_mounted = (case mountEffect demo_env demo_state of Inr s \<Rightarrow> s | Inl _ \<Rightarrow> demo_state)"

definition demo_scrollable :: state where
  "demo_scrollable = enableScroll demo_mounted"

text \<open>
  A mount with a resume cursor while the Local store has tailing on, and the state its
  mount effect leaves.
\<close>

definition demo_resume_env :: env where
  "demo_resume_env = demo_env\<lparr>cursorSet := Some True\<rparr>"

definition demo_tailing_state :: state where
  "demo_tailing_state = initialState True demo_container Map.empty"

definition demo_resumed :: state where
  "demo_resumed =
     (case mountEffect demo_resume_env demo_tailing_state of
        Inr s \<Rightarrow> s | Inl _ \<Rightarrow> demo_tailing_state)"

text \<open>A date parser that knows three instants of one morning, and nothing else.\<close>

definition demo_date :: "string \<Rightarrow> int option" where
  "demo_date x =
     (if x = ''2021-03-01T10:00:00Z'' then Some 1614592800000
      else if x = ''2021-03-01T10:03:00Z'' then Some 1614592980000
      else if x = ''2021-03-01T10:05:00Z'' then Some 1614593100000
      else None)"

text \<open>
  The storage holds a record of 10:00. Two visibility callbacks are started one after
  the other, for a comment of 10:05 and then for a comment of 10:03, and both
  \<^verbatim>\<open>getItem\<close> calls are answered before either callback goes on. \<open>demo_first_written\<close>
  is the state after the first callback has gone on from its \<^verbatim>\<open>getItem\<close>,
  \<open>demo_second_written\<close> the state after the second has.
\<close>

definition demo_stored :: state where
  "demo_stored = initialState False demo_container
     [cursorKey demo_env \<mapsto> \<lparr>createdAt = ''2021-03-01T10:00:00Z'', cursor = ''cur0''\<rparr>]"

definition demo_first_written :: state where
  "demo_first_written =
     onCommentVisible_afterGetItem demo_date demo_env ''c5'' ''2021-03-01T10:05:00Z'' ''cur5''
       (onCommentVisible_getItem demo_env demo_stored) demo_stored"

definition demo_second_written :: state where
  "demo_second_written =
     onCommentVisible_afterGetItem demo_date demo_env ''c3'' ''2021-03-01T10:03:00Z'' ''cur3''
       (onCommentVisible_getItem demo_env demo_stored) demo_first_written"

definition demo_commenter :: actions_viewer where
  "demo_commenter = \<lparr>role = ''COMMENTER'', status_current = [OtherStatus ''ACTIVE'']\<rparr>"

section \<open>Properties\<close>

subsection \<open>Backward pagination after a failed load\<close>

text \<open>
  C1. A backward load that fails is caught and ignored, but the in-flight flag
  \<^verbatim>\<open>beforeCommentsIncoming\<close> is not reset on that path. At the sample input the begin
  sentinel becomes visible and a load is issued; the load is rejected; the flag is still
  set and nothing is outstanding; the sentinel becomes visible again, with
  \<^verbatim>\<open>beforeHasMore\<close> true and \<^verbatim>\<open>isLoadingMoreBefore\<close> false, and no load is issued.
  Only \<^verbatim>\<open>clearScrollState\<close>, which the component schedules when a comment list
  changes, resets the flag, after which the same event issues a load again.
\<close>

theorem onBeginInView_flag_stuck_after_failure:
  "effects_of (onBeginInView demo_env) demo_state
     = [EmitLoadBefore ''story-1'' [], LoadMoreBefore]
   \<and> beforeCommentsIncoming (onBeginInView_settled Rejected (onBeginInView demo_env demo_state))
   \<and> pendingBefore (onBeginInView_settled Rejected (onBeginInView demo_env demo_state)) = 0
   \<and> beforeHasMore demo_env \<and> \<not> isLoadingMoreBefore demo_env
   \<and> effects_of (onBeginInView demo_env)
        (onBeginInView_settled Rejected (onBeginInView demo_env demo_state)) = []
   \<and> effects_of (onBeginInView demo_env)
        (clearScrollState
           (onBeginInView_settled Rejected (onBeginInView demo_env demo_state)))
       = [EmitLoadBefore ''story-1'' [], LoadMoreBefore]"
  by (simp add: demo_env_def demo_state_def initialState_def onBeginInView_def
      onBeginInView_settled_def clearScrollState_def effects_of_def log_def Let_def)

subsection \<open>One load in flight per direction\<close>















subsection \<open>The persisted cursor\<close>

text \<open>
  C3. The callback compares the new \<open>createdAt\<close> with the record its \<^verbatim>\<open>getItem\<close>
  returned and writes after an \<^verbatim>\<open>await\<close>, so two callbacks that overlap both compare
  with the same old record. At the sample input the storage holds a record of 10:00,
  and the callbacks for a comment of 10:05 and for a comment of 10:03 have both read it.
  The first goes on and stores 10:05; the second goes on, finds 10:03 later than the
  10:00 it read, and stores 10:03 over the record of 10:05: a record is overwritten by
  one that is not newer, and the stored \<open>createdAt\<close> goes back. Running the rest of both
  callbacks changes nothing.
\<close>

theorem onCommentVisible_overlap_goes_back:
  "onCommentVisible_getItem demo_env demo_stored
     = Some \<lparr>createdAt = ''2021-03-01T10:00:00Z'', cursor = ''cur0''\<rparr>
   \<and> localStorage demo_first_written (cursorKey demo_env)
     = Some \<lparr>createdAt = ''2021-03-01T10:05:00Z'', cursor = ''cur5''\<rparr>
   \<and> localStorage demo_second_written (cursorKey demo_env)
     = Some \<lparr>createdAt = ''2021-03-01T10:03:00Z'', cursor = ''cur3''\<rparr>
   \<and> date_gt demo_date ''2021-03-01T10:05:00Z'' ''2021-03-01T10:03:00Z''
   \<and> \<not> date_gt demo_date ''2021-03-01T10:03:00Z'' ''2021-03-01T10:05:00Z''
   \<and> onCommentVisible_rest demo_env ''c3'' (onCommentVisible_rest demo_env ''c5''
        demo_second_written) = demo_second_written"
  by (simp add: demo_second_written_def demo_first_written_def demo_stored_def demo_env_def
      demo_date_def initialState_def onCommentVisible_getItem_def
      onCommentVisible_afterGetItem_def onCommentVisible_rest_def setItem_def log_def
      date_gt_def cursorKey_def Let_def)

subsection \<open>Forward pagination\<close>

text \<open>
  C4. The end-sentinel handler calls \<^verbatim>\<open>loadMoreAfter\<close> exactly when \<^verbatim>\<open>afterHasMore\<close>
  holds, \<^verbatim>\<open>isLoadingMoreAfter\<close> and \<^verbatim>\<open>afterCommentsIncoming\<close> are both false and
  \<^verbatim>\<open>tailing\<close> is false; when it does, its calls are \<^verbatim>\<open>setTailing(false)\<close> first and
  \<^verbatim>\<open>loadMoreAfter()\<close> second, and the stored tailing flag is false afterwards; when it
  does not, it makes no call at all.
\<close>

theorem onEndInView_issues_load_iff:
  "(LoadMoreAfter \<in> set (effects_of (onEndInView e) s))
     = (afterHasMore e \<and> \<not> isLoadingMoreAfter e \<and> \<not> afterCommentsIncoming s \<and> \<not> tailing e)
   \<and> effects_of (onEndInView e) s
     = (if afterHasMore e \<and> \<not> isLoadingMoreAfter e \<and> \<not> afterCommentsIncoming s \<and> \<not> tailing e
        then [SetTailing False, LoadMoreAfter] else [])
   \<and> liveChat_tailing (onEndInView e s)
     = (if afterHasMore e \<and> \<not> isLoadingMoreAfter e \<and> \<not> afterCommentsIncoming s \<and> \<not> tailing e
        then False else liveChat_tailing s)"
  by (simp add: onEndInView_def effects_of_def setTailing_def log_def Let_def)

theorem onEndInView_issues_load_iff_witness:
  "effects_of (onEndInView demo_env) demo_state = [SetTailing False, LoadMoreAfter]
   \<and> effects_of (onEndInView (demo_env\<lparr>tailing := True\<rparr>)) demo_state = []"
  using onEndInView_issues_load_iff [of demo_env demo_state]
    onEndInView_issues_load_iff [of "demo_env\<lparr>tailing := True\<rparr>" demo_state]
  by (simp add: demo_env_def demo_state_def initialState_def)

subsection \<open>The scroll handler\<close>

text \<open>
  C5, as the code has it. With the container and the begin element attached, every
  scroll event makes the handler call \<^verbatim>\<open>setTailing\<close> once, with the value
  ``within 5px of the bottom and \<^verbatim>\<open>afterHasMore\<close> false'': tailing becomes true when
  the viewport is within 5px of the bottom and no forward data remains, and it is set to
  false, by the scroll handler itself, in every other case.
\<close>

theorem onScroll_sets_tailing:
  "containerRef s = Some c \<Longrightarrow> beginRef s \<noteq> None \<Longrightarrow>
   effects_of (onScroll e) s = [SetTailing (atBottom c \<and> \<not> afterHasMore e)]
   \<and> liveChat_tailing (onScroll e s) = (atBottom c \<and> \<not> afterHasMore e)"
  by (simp add: onScroll_def effects_of_def setTailing_def log_def ref_truthy_def)

theorem onScroll_sets_tailing_witness:
  "containerRef demo_scrollable = Some demo_container
   \<and> beginRef demo_scrollable \<noteq> None
   \<and> effects_of (onScroll demo_env) demo_scrollable = [SetTailing False]
   \<and> \<not> liveChat_tailing (onScroll demo_env demo_scrollable)"
proof -
  have c: "containerRef demo_scrollable = Some demo_container"
    by (simp add: demo_scrollable_def demo_mounted_def demo_state_def demo_env_def
        enableScroll_def mountEffect_def initialState_def scrollToEnd_def setTailing_def log_def)
  have b: "beginRef demo_scrollable \<noteq> None"
    by (simp add: demo_scrollable_def demo_mounted_def demo_state_def demo_env_def
        enableScroll_def mountEffect_def initialState_def scrollToEnd_def setTailing_def log_def)
  from onScroll_sets_tailing [OF c b, of demo_env] c b
  show ?thesis
    by (simp add: atBottom_def demo_container_def demo_env_def)
qed

text \<open>
  The last clause of C5 as first stated (away from the bottom while more data remains,
  the scroll handler does not itself set tailing to false) fails: after the warm-up, with
  tailing on,
  the viewport at the top of the list and \<^verbatim>\<open>afterHasMore\<close> true, one scroll event makes
  the handler call \<^verbatim>\<open>setTailing(false)\<close>, and tailing goes from true to false.
\<close>

theorem onScroll_clears_tailing_counterexample:
  "scrollEnabled demo_scrollable
   \<and> containerRef demo_scrollable = Some demo_container
   \<and> \<not> atBottom demo_container
   \<and> afterHasMore demo_env
   \<and> liveChat_tailing demo_scrollable
   \<and> SetTailing False \<in> set (effects_of (onScroll demo_env) demo_scrollable)
   \<and> \<not> liveChat_tailing (onScroll demo_env demo_scrollable)"
  by (simp add: demo_scrollable_def demo_mounted_def demo_state_def demo_env_def
      demo_container_def enableScroll_def mountEffect_def initialState_def scrollToEnd_def
      setTailing_def log_def onScroll_def ref_truthy_def atBottom_def effects_of_def)

subsection \<open>Mount\<close>

text \<open>
  C6, as the code has it. Run on the state of the first commit, whatever the Local store,
  the container and the storage hold, the mount effect succeeds. Without a resume cursor
  (\<^verbatim>\<open>cursorSet\<close> absent or false) it scrolls to the end and calls \<^verbatim>\<open>setTailing(true)\<close>:
  tailing is true. With a resume cursor (\<^verbatim>\<open>cursorSet\<close> true) it scrolls to the
  before/after marker and does not write tailing: tailing is what the Local store held
  before, false only if it was false. In both cases the effect ends by scheduling the
  300 ms timer, and scrolling is not yet enabled.
\<close>

theorem mount_tailing:
  "\<exists>s'. mountEffect e (initialState on c st) = Inr s'
      \<and> liveChat_tailing s' = (if cursorSet e = Some True then on else True)
      \<and> trace s' =
          (if cursorSet e = Some True
           then [ScrollToBeforeAfter, SetTimeout EnableScroll 300]
           else [ScrollToEnd (scrollHeight c) None, SetTailing True,
                 SetTimeout EnableScroll 300])
      \<and> \<not> scrollEnabled s'"
  by (simp add: mountEffect_def initialState_def scrollToBeforeAfter_def
      scrollToEnd_def setTailing_def log_def)

theorem mount_tailing_witness:
  "liveChat_tailing demo_mounted
   \<and> trace demo_mounted
       = [ScrollToEnd 1000 None, SetTailing True, SetTimeout EnableScroll 300]
   \<and> liveChat_tailing demo_resumed
   \<and> trace demo_resumed = [ScrollToBeforeAfter, SetTimeout EnableScroll 300]"
  using mount_tailing [of demo_env False demo_container Map.empty]
    mount_tailing [of demo_resume_env True demo_container Map.empty]
  by (auto simp: demo_mounted_def demo_resumed_def demo_state_def demo_tailing_state_def
      demo_resume_env_def demo_env_def demo_container_def)

text \<open>
  C6 as first stated fails in its second half: the component mounts with a resume
  cursor while the Local store has tailing on; the mount effect scrolls to the
  before/after marker and leaves tailing on.
\<close>

theorem mount_with_cursor_keeps_tailing_counterexample:
  "cursorSet demo_resume_env = Some True
   \<and> mountEffect demo_resume_env demo_tailing_state = Inr demo_resumed
   \<and> trace demo_resumed = [ScrollToBeforeAfter, SetTimeout EnableScroll 300]
   \<and> liveChat_tailing demo_resumed"
  by (simp add: demo_resumed_def demo_resume_env_def demo_env_def demo_tailing_state_def
      initialState_def mountEffect_def scrollToBeforeAfter_def log_def)

subsection \<open>Scroll events during the warm-up\<close>

text \<open>
  C7. The scroll handler is meant to do nothing until the 300 ms timer has set
  \<^verbatim>\<open>scrollEnabled.current\<close>, but its guard tests \<^verbatim>\<open>!scrollEnabled\<close>, the ref object,
  which is never false. At the sample input the component has just mounted without a
  cursor: tailing is on and \<^verbatim>\<open>scrollEnabled.current\<close> is still false. A scroll event
  that arrives now, with the viewport at the top of the list, is acted upon: the handler
  calls \<^verbatim>\<open>setTailing(false)\<close> and tailing is switched off.
\<close>

theorem onScroll_ignores_scrollEnabled:
  "mountEffect demo_env demo_state = Inr demo_mounted
   \<and> \<not> scrollEnabled demo_mounted
   \<and> liveChat_tailing demo_mounted
   \<and> effects_of (onScroll demo_env) demo_mounted = [SetTailing False]
   \<and> \<not> liveChat_tailing (onScroll demo_env demo_mounted)"
  by (simp add: demo_mounted_def demo_env_def demo_state_def demo_container_def initialState_def
      mountEffect_def scrollToEnd_def setTailing_def onScroll_def ref_truthy_def atBottom_def
      effects_of_def log_def)

subsection \<open>Submitting a comment\<close>

text \<open>
  C8. When a comment is submitted with a non-empty id and a non-empty cursor, the handler
  calls \<^verbatim>\<open>setNewComment\<close> with that id and cursor exactly when tailing is false; when
  tailing is true it makes no call and the pending pointer stays as it was.
\<close>

theorem onCommentSubmitted_pointer_iff_not_tailing:
  "commentID \<noteq> [] \<Longrightarrow> cur \<noteq> [] \<Longrightarrow>
   effects_of (onCommentSubmitted e commentID cur) s =
     (if tailing e then []
      else [SetNewComment (Some \<lparr>nc_id = commentID, nc_cursor = cur\<rparr>)])
   \<and> newComment_cell (onCommentSubmitted e commentID cur s) =
     (if tailing e then newComment_cell s
      else Some \<lparr>nc_id = commentID, nc_cursor = cur\<rparr>)"
  by (simp add: onCommentSubmitted_def effects_of_def setNewComment_def log_def)

theorem onCommentSubmitted_pointer_iff_not_tailing_witness:
  "''c3'' \<noteq> [] \<and> ''cur3'' \<noteq> []
   \<and> newComment_cell (onCommentSubmitted demo_env ''c3'' ''cur3'' demo_state)
       = Some \<lparr>nc_id = ''c3'', nc_cursor = ''cur3''\<rparr>
   \<and> newComment_cell (onCommentSubmitted (demo_env\<lparr>tailing := True\<rparr>) ''c3'' ''cur3'' demo_state)
       = None"
  using onCommentSubmitted_pointer_iff_not_tailing [of "''c3''" "''cur3''" demo_env demo_state]
    onCommentSubmitted_pointer_iff_not_tailing
      [of "''c3''" "''cur3''" "demo_env\<lparr>tailing := True\<rparr>" demo_state]
  by (simp add: demo_env_def demo_state_def initialState_def)

text \<open>
  C10. When the comment id or the cursor is the empty string, the handler returns at
  once: nothing changes, whatever tailing is, so no pointer is created.
\<close>

theorem onCommentSubmitted_empty_noop:
  "commentID = [] \<or> cur = [] \<Longrightarrow> onCommentSubmitted e commentID cur s = s"
  by (auto simp: onCommentSubmitted_def)

theorem onCommentSubmitted_empty_noop_witness:
  "\<not> tailing demo_env
   \<and> onCommentSubmitted demo_env [] ''cur3'' demo_state = demo_state
   \<and> onCommentSubmitted demo_env ''c3'' [] demo_state = demo_state"
  using onCommentSubmitted_empty_noop [of "[]" "''cur3''" demo_env demo_state]
    onCommentSubmitted_empty_noop [of "''c3''" "[]" demo_env demo_state]
  by (simp add: demo_env_def)

subsection \<open>The report control\<close>

text \<open>
  C9. The action bar renders the report control exactly when there is a viewer, the
  viewer's current status contains none of BANNED, SUSPENDED and WARNED, the moderation
  caret is not shown (it is shown when there is a viewer, the story can be moderated and
  the viewer has the MODERATE ability), and an \<^verbatim>\<open>onToggleReport\<close> handler was passed.
\<close>

theorem rendersReportButton_iff:
  "rendersReportButton can v story h =
     (\<exists>u. v = Some u
        \<and> BANNED \<notin> set (status_current u)
        \<and> SUSPENDED \<notin> set (status_current u)
        \<and> WARNED \<notin> set (status_current u)
        \<and> \<not> (canModerate story \<and> can u MODERATE)
        \<and> h \<noteq> None)"
  by (cases v)
     (auto simp: rendersReportButton_def isViewerBanned_def isViewerSuspended_def
        isViewerWarned_def status_includes_def showModerationCaret_def)

theorem rendersReportButton_iff_witness:
  "rendersReportButton (\<lambda>u a. False) (Some demo_commenter) \<lparr>canModerate = True\<rparr> (Some ())
   \<and> \<not> rendersReportButton (\<lambda>u a. True) (Some demo_commenter) \<lparr>canModerate = True\<rparr> (Some ())
   \<and> \<not> rendersReportButton (\<lambda>u a. False)
         (Some (demo_commenter\<lparr>status_current := [WARNED]\<rparr>)) \<lparr>canModerate = True\<rparr> (Some ())
   \<and> \<not> rendersReportButton (\<lambda>u a. False) (Some demo_commenter) \<lparr>canModerate = True\<rparr> None"
  using rendersReportButton_iff [of "\<lambda>u a. False" "Some demo_commenter" "\<lparr>canModerate = True\<rparr>" "Some ()"]
    rendersReportButton_iff [of "\<lambda>u a. True" "Some demo_commenter" "\<lparr>canModerate = True\<rparr>" "Some ()"]
    rendersReportButton_iff [of "\<lambda>u a. False" "Some (demo_commenter\<lparr>status_current := [WARNED]\<rparr>)"
      "\<lparr>canModerate = True\<rparr>" "Some ()"]
    rendersReportButton_iff [of "\<lambda>u a. False" "Some demo_commenter" "\<lparr>canModerate = True\<rparr>" None]
  by (simp add: demo_commenter_def)

end
